theory Spec2Isabelle
  imports Complex_Main "HOL-Library.Word" "HOL-Library.Char_ord" "HOL-Library.List_Lexorder"
    "HOL-Library.AList" "HOL-Library.Multiset"
begin

section \<open>The error reconciler of the zipper (app/carbonzipper/http\_handlers.go)\<close>

text \<open>
  A Go \<^verbatim>\<open>error\<close> value, as far as \<^verbatim>\<open>errorsFanIn\<close> and the handlers tell errors
  apart: \<^verbatim>\<open>types.ErrNotFound\<close> is a string type whose \<^verbatim>\<open>Error()\<close> is the string
  itself (the type assertion \<^verbatim>\<open>e.(types.ErrNotFound)\<close> and \<^verbatim>\<open>errors.As\<close> recognise
  it); every other error, \<^verbatim>\<open>errors.New(msg)\<close> included, is \<open>ErrorString msg\<close>.
\<close>

datatype goerror = ErrNotFound string | ErrorString string

fun Error :: "goerror \<Rightarrow> string" where
  "Error (ErrNotFound s) = s"
| "Error (ErrorString s) = s"

fun isErrNotFound :: "goerror \<Rightarrow> bool" where
  "isErrNotFound (ErrNotFound s) = True"
| "isErrNotFound (ErrorString s) = False"

subsection \<open>Formatting: \<^verbatim>\<open>%d\<close> and \<^verbatim>\<open>%+v\<close> of a \<^verbatim>\<open>map[string]int\<close>\<close>

definition digit_char :: "nat \<Rightarrow> char" where
  "digit_char d = ''0123456789'' ! d"

fun nat_digits :: "nat \<Rightarrow> string" where
  "nat_digits n = (if n < 10 then [digit_char n] else nat_digits (n div 10) @ [digit_char (n mod 10)])"

declare nat_digits.simps [simp del]

definition itoa :: "int \<Rightarrow> string" where
  "itoa i = (if i < 0 then CHR ''-'' # nat_digits (nat (- i)) else nat_digits (nat i))"

text \<open>
  The \<^verbatim>\<open>counts\<close> map of \<^verbatim>\<open>errorsFanIn\<close> is an association list with one entry
  per key; \<^verbatim>\<open>counts[k] += 1\<close> reads a missing key as 0.
\<close>

type_synonym counts = "(string \<times> int) list"

definition counts_incr :: "counts \<Rightarrow> string \<Rightarrow> counts" where
  "counts_incr m k = AList.update k ((case map_of m k of None \<Rightarrow> 0 | Some c \<Rightarrow> c) + 1) m"

fun join_sp :: "string list \<Rightarrow> string" where
  "join_sp [] = []"
| "join_sp [x] = x"
| "join_sp (x # y # ys) = x @ CHR '' '' # join_sp (y # ys)"

text \<open>\<^verbatim>\<open>fmt\<close> prints a map as \<^verbatim>\<open>map[k1:v1 k2:v2]\<close> with the keys in ascending
  (bytewise) order.\<close>

definition fmt_counts :: "counts \<Rightarrow> string" where
  "fmt_counts m =
     ''map['' @ join_sp (map (\<lambda>(k, v). k @ CHR '':'' # itoa v) (sort_key fst m)) @ '']''"

subsection \<open>\<^verbatim>\<open>errorsFanIn\<close>\<close>

text \<open>The loop over \<^verbatim>\<open>errs\<close> of the default case: it fills \<^verbatim>\<open>counts\<close> and counts
  the errors that are not \<^verbatim>\<open>ErrNotFound\<close>.\<close>

fun errorsFanIn_loop :: "goerror list \<Rightarrow> counts \<Rightarrow> int \<Rightarrow> counts \<times> int" where
  "errorsFanIn_loop [] counts nNotNotFounds = (counts, nNotNotFounds)"
| "errorsFanIn_loop (e # errs) counts nNotNotFounds =
     errorsFanIn_loop errs (counts_incr counts (Error e))
       (if \<not> isErrNotFound e then nNotNotFounds + 1 else nNotNotFounds)"

text \<open>
  \<open>None\<close> is Go's \<^verbatim>\<open>nil\<close> error. In the default case \<open>nBackends = nErrs > 0\<close>, so
  Go's truncating division of \<open>nBackends + 1\<close> by 2 is \<open>div\<close>.
\<close>

definition errorsFanIn :: "goerror list \<Rightarrow> int \<Rightarrow> goerror option" where
  "errorsFanIn errs nBackends =
     (let nErrs = int (length errs) in
      if nErrs = 0 then None
      else if nErrs < nBackends then None
      else if nErrs > nBackends then
        Some (ErrorString ''got more errors than there are backends. Probably something is broken'')
      else
        (let (counts, nNotNotFounds) = errorsFanIn_loop errs [] 0;
             nMajority = (nBackends + 1) div 2
         in if nNotNotFounds < nMajority then
              Some (ErrNotFound (''majority of backends returned not found. '' @ itoa nErrs
                      @ '' total errors, '' @ itoa (nErrs - nNotNotFounds) @ '' not found''))
            else
              (let message = ''all backends failed with mixed errors: '' @ fmt_counts counts
               in Some (ErrorString (if length message > 300 then take 300 message else message)))))"

text \<open>The three outcomes the specification names.\<close>

definition is_success :: "goerror option \<Rightarrow> bool" where
  "is_success r = (r = None)"

definition is_not_found :: "goerror option \<Rightarrow> bool" where
  "is_not_found r = (case r of Some (ErrNotFound m) \<Rightarrow> True | _ \<Rightarrow> False)"

definition is_mixed_failure :: "goerror option \<Rightarrow> bool" where
  "is_mixed_failure r =
     (case r of Some (ErrorString m) \<Rightarrow> take 39 m = ''all backends failed with mixed errors: ''
      | _ \<Rightarrow> False)"

text \<open>
  The specification's summary of an error vector, in its own words: the unique error
  strings with their counts (listed in ascending order, as \<^verbatim>\<open>fmt\<close> prints a map).
\<close>

definition error_summary :: "goerror list \<Rightarrow> (string \<times> int) list" where
  "error_summary errs =
     map (\<lambda>s. (s, int (count_list (map Error errs) s))) (sort (remdups (map Error errs)))"

section \<open>What the find and render handlers answer\<close>

text \<open>
  The handlers are modelled from the point where the backends have answered:
  \<open>metrics\<close> and \<open>errs\<close> are what \<^verbatim>\<open>backend.Finds\<close> or \<^verbatim>\<open>backend.Renders\<close>
  returned and \<open>nBackends\<close> is \<^verbatim>\<open>len(bs)\<close>. Logging, tracing and counters leave
  the response unchanged and are left out. A response is the status code, the content
  type and the body; \<^verbatim>\<open>http.Error\<close> writes the message and a newline as plain text,
  and a \<^verbatim>\<open>w.Write\<close> with no status set answers 200.
\<close>

record response =
  code :: nat
  contentType :: string
  body :: string

definition http_Error :: "string \<Rightarrow> nat \<Rightarrow> response" where
  "http_Error msg c =
     \<lparr>code = c, contentType = ''text/plain; charset=utf-8'', body = msg @ [CHR 0x0A]\<rparr>"

definition StatusOK :: nat where "StatusOK = 200"
definition StatusNotFound :: nat where "StatusNotFound = 404"
definition StatusInternalServerError :: nat where "StatusInternalServerError = 500"

definition contentTypeJSON :: string where "contentTypeJSON = ''application/json''"
definition contentTypeProtobuf :: string where "contentTypeProtobuf = ''application/x-protobuf''"
definition contentTypePickle :: string where "contentTypePickle = ''application/pickle''"

definition formatTypeEmpty :: string where "formatTypeEmpty = []"
definition formatTypePickle :: string where "formatTypePickle = ''pickle''"
definition formatTypeJSON :: string where "formatTypeJSON = ''json''"
definition formatTypeProtobuf :: string where "formatTypeProtobuf = ''protobuf''"
definition formatTypeProtobuf3 :: string where "formatTypeProtobuf3 = ''protobuf3''"

text \<open>
  A find match is the record (path, isLeaf) of the specification. Of the struct
  \<^verbatim>\<open>types.Matches\<close> the handler reads and sorts the field \<^verbatim>\<open>Matches\<close>; whatever
  else it holds is the extension of the record, and the encoders get the whole value.
\<close>

record Match =
  Path :: string
  IsLeaf :: bool

record Matches =
  Matches :: "Match list"

text \<open>
  What the find handler calls from outside this source, as parameters: \<^verbatim>\<open>sort.Slice\<close>
  with the handler's comparison by path, and the four encoders. An encoder returns the
  blob, or \<open>None\<close> for its error (the handlers only log the error value).
\<close>

record 'z find_lib =
  sort_Slice :: "Match list \<Rightarrow> Match list"
  carbonapi_v2_FindEncoder :: "'z Matches_scheme \<Rightarrow> string option"
  json_FindEncoder :: "'z Matches_scheme \<Rightarrow> string option"
  pickle_FindEncoderV0_9 :: "'z Matches_scheme \<Rightarrow> string option"
  pickle_FindEncoderV1_0 :: "'z Matches_scheme \<Rightarrow> string option"

text \<open>
  \<^verbatim>\<open>sort.Slice\<close> is not stable: all that is known of its result is that it holds
  the same matches, in ascending order of their paths.
\<close>

definition sorts_by_Path :: "(Match list \<Rightarrow> Match list) \<Rightarrow> bool" where
  "sorts_by_Path srt \<longleftrightarrow> (\<forall>ms. mset (srt ms) = mset ms \<and> sorted (map Path (srt ms)))"

record 'r render_encoders =
  carbonapi_v2_RenderEncoder :: "'r \<Rightarrow> string option"
  json_RenderEncoder :: "'r \<Rightarrow> string option"
  pickle_RenderEncoder :: "'r \<Rightarrow> string option"

text \<open>The format switch of \<^verbatim>\<open>findHandler\<close>: the content type and the encoder's result;
  an unknown format is an error.\<close>

definition find_encode ::
  "'z find_lib \<Rightarrow> bool \<Rightarrow> string \<Rightarrow> 'z Matches_scheme \<Rightarrow> string \<times> string option" where
  "find_encode lib GraphiteWeb09Compatibility format metrics =
     (if format = formatTypeProtobuf \<or> format = formatTypeProtobuf3 then
        (contentTypeProtobuf, carbonapi_v2_FindEncoder lib metrics)
      else if format = formatTypeJSON then
        (contentTypeJSON, json_FindEncoder lib metrics)
      else if format = formatTypeEmpty \<or> format = formatTypePickle then
        (contentTypePickle,
         if GraphiteWeb09Compatibility then pickle_FindEncoderV0_9 lib metrics
         else pickle_FindEncoderV1_0 lib metrics)
      else ([], None))"

text \<open>From \<^verbatim>\<open>sort.Slice(metrics.Matches, ...)\<close> to the end of \<^verbatim>\<open>findHandler\<close>.\<close>

definition find_respond :: "'z find_lib \<Rightarrow> bool \<Rightarrow> string \<Rightarrow> 'z Matches_scheme \<Rightarrow> response" where
  "find_respond lib gw09 format metrics =
     (let metrics = metrics\<lparr>Matches := sort_Slice lib (Matches metrics)\<rparr> in
      case find_encode lib gw09 format metrics of
        (ct, None) \<Rightarrow> http_Error ''error marshaling data'' StatusInternalServerError
      | (ct, Some blob) \<Rightarrow> \<lparr>code = StatusOK, contentType = ct, body = blob\<rparr>)"

text \<open>After a NotFound error the handler only logs and counts, and goes on.\<close>

definition findHandler ::
  "'z find_lib \<Rightarrow> bool \<Rightarrow> string \<Rightarrow> 'z Matches_scheme \<Rightarrow> goerror list \<Rightarrow> int \<Rightarrow> response" where
  "findHandler lib gw09 format metrics errs nBackends =
     (case errorsFanIn errs nBackends of
        None \<Rightarrow> find_respond lib gw09 format metrics
      | Some (ErrNotFound m) \<Rightarrow> find_respond lib gw09 format metrics
      | Some (ErrorString m) \<Rightarrow> http_Error m StatusInternalServerError)"

definition render_encode :: "'r render_encoders \<Rightarrow> string \<Rightarrow> 'r \<Rightarrow> string \<times> string option" where
  "render_encode enc format metrics =
     (if format = formatTypeProtobuf \<or> format = formatTypeProtobuf3 then
        (contentTypeProtobuf, carbonapi_v2_RenderEncoder enc metrics)
      else if format = formatTypeJSON then
        (contentTypeJSON, json_RenderEncoder enc metrics)
      else if format = formatTypeEmpty \<or> format = formatTypePickle then
        (contentTypePickle, pickle_RenderEncoder enc metrics)
      else ([], None))"

definition renderHandler ::
  "'r render_encoders \<Rightarrow> string \<Rightarrow> 'r \<Rightarrow> goerror list \<Rightarrow> int \<Rightarrow> response" where
  "renderHandler enc format metrics errs nBackends =
     (case errorsFanIn errs nBackends of
        Some err \<Rightarrow>
          (if isErrNotFound err then http_Error ''not found'' StatusNotFound
           else http_Error ''error fetching the data'' StatusInternalServerError)
      | None \<Rightarrow>
          (case render_encode enc format metrics of
             (ct, None) \<Rightarrow> http_Error ''error marshaling data'' StatusInternalServerError
           | (ct, Some blob) \<Rightarrow> \<lparr>code = StatusOK, contentType = ct, body = blob\<rparr>))"

text \<open>
  Stand-ins for the encoders, for instances only: they write the paths of the matches
  (the series names) between brackets.
\<close>

definition example_find_lib :: "unit find_lib" where
  "example_find_lib =
     \<lparr>sort_Slice = sort_key Path,
      carbonapi_v2_FindEncoder = (\<lambda>m. Some (''<'' @ concat (map Path (Matches m)) @ ''>'')),
      json_FindEncoder = (\<lambda>m. Some (''['' @ concat (map Path (Matches m)) @ '']'')),
      pickle_FindEncoderV0_9 = (\<lambda>m. Some (''('' @ concat (map Path (Matches m)) @ '')'')),
      pickle_FindEncoderV1_0 = (\<lambda>m. Some (''('' @ concat (map Path (Matches m)) @ '').''))\<rparr>"

definition example_render_encoders :: "(string list) render_encoders" where
  "example_render_encoders =
     \<lparr>carbonapi_v2_RenderEncoder = (\<lambda>m. Some (''<'' @ concat m @ ''>'')),
      json_RenderEncoder = (\<lambda>m. Some (''['' @ concat m @ '']'')),
      pickle_RenderEncoder = (\<lambda>m. Some (''('' @ concat m @ '').''))\<rparr>"

text \<open>The number of \<^verbatim>\<open>ErrNotFound\<close> errors in a vector (the specification's \<open>k\<close>).\<close>

definition nNotFound :: "goerror list \<Rightarrow> int" where
  "nNotFound errs = int (length (filter isErrNotFound errs))"

section \<open>Properties of the reconciler\<close>

subsection \<open>The loop of \<^verbatim>\<open>errorsFanIn\<close>\<close>

lemma counts_incr_distinct: "distinct (map fst m) \<Longrightarrow> distinct (map fst (counts_incr m k))"
  by (simp add: counts_incr_def distinct_update)

lemma counts_incr_map_of:
  "map_of (counts_incr m k) = (map_of m)(k \<mapsto> (case map_of m k of None \<Rightarrow> 0 | Some c \<Rightarrow> c) + 1)"
  by (simp add: counts_incr_def update_conv')

lemma errorsFanIn_loop_snd:
  "snd (errorsFanIn_loop errs c n) = n + int (length (filter (\<lambda>e. \<not> isErrNotFound e) errs))"
  by (induction errs arbitrary: c n) auto

lemma errorsFanIn_loop_distinct:
  "distinct (map fst c) \<Longrightarrow> distinct (map fst (fst (errorsFanIn_loop errs c n)))"
  by (induction errs arbitrary: c n) (auto simp: counts_incr_distinct)

lemma errorsFanIn_loop_map_of:
  "map_of (fst (errorsFanIn_loop errs c n)) s =
     (if s \<in> Error ` set errs \<or> s \<in> dom (map_of c)
      then Some ((case map_of c s of None \<Rightarrow> 0 | Some v \<Rightarrow> v) + int (count_list (map Error errs) s))
      else None)"
proof (induction errs arbitrary: c n)
  case Nil
  then show ?case by auto
next
  case (Cons e errs)
  show ?case
    by (simp add: Cons.IH counts_incr_map_of split: option.splits) auto
qed

lemma errorsFanIn_loop_sorted:
  "sort_key fst (fst (errorsFanIn_loop errs [] 0)) = error_summary errs"
proof (rule sort_key_inj_key_eq)
  let ?cs = "fst (errorsFanIn_loop errs [] 0)"
  have d: "distinct (map fst ?cs)" by (rule errorsFanIn_loop_distinct) simp
  then have dc: "distinct ?cs" by (simp add: distinct_map)
  show "inj_on fst (set ?cs)" using d by (simp add: distinct_map)
  have keys: "map fst (error_summary errs) = sort (remdups (map Error errs))"
    by (simp add: error_summary_def comp_def)
  show "sorted (map fst (error_summary errs))" by (simp add: keys)
  have "distinct (map fst (error_summary errs))" by (simp add: keys)
  then have ds: "distinct (error_summary errs)" by (simp add: distinct_map)
  have "set ?cs = set (error_summary errs)"
  proof (rule set_eqI)
    fix p :: "string \<times> int"
    obtain s v where p: "p = (s, v)" by (cases p)
    have "(s, v) \<in> set ?cs \<longleftrightarrow> map_of ?cs s = Some v" using d by simp
    also have "\<dots> \<longleftrightarrow> s \<in> Error ` set errs \<and> v = int (count_list (map Error errs) s)"
      by (auto simp: errorsFanIn_loop_map_of)
    also have "\<dots> \<longleftrightarrow> (s, v) \<in> set (error_summary errs)"
      by (auto simp: error_summary_def)
    finally show "p \<in> set ?cs \<longleftrightarrow> p \<in> set (error_summary errs)" by (simp add: p)
  qed
  then show "mset ?cs = mset (error_summary errs)"
    using dc ds by (simp add: set_eq_iff_mset_eq_distinct)
qed

lemma length_filter_not_NotFound:
  "int (length (filter (\<lambda>e. \<not> isErrNotFound e) errs)) =
     int (length errs) - int (length (filter isErrNotFound errs))"
  using sum_length_filter_compl [of isErrNotFound errs] by simp

lemma itoa_small: "itoa 2 = ''2''" "itoa 3 = ''3''"
  by (simp_all add: itoa_def nat_digits.simps digit_char_def)


subsection \<open>Classification\<close>

text \<open>
  C1. With \<open>m = length errs\<close> errors for \<open>n\<close> backends attempted: no error when
  \<open>m = 0\<close> or \<open>m < n\<close>; the internal error when \<open>m > n\<close>; when \<open>m = n\<close>, with \<open>k\<close>
  the number of NotFound errors, a NotFound error (with the counts in its text) when
  \<open>n - k < (n + 1) div 2\<close>, and otherwise one error whose message is the prefix
  \<^verbatim>\<open>all backends failed with mixed errors: \<close> followed by the unique error strings
  with their counts, cut to 300 characters.
\<close>

theorem errorsFanIn_classification:
  "errorsFanIn errs n =
     (if length errs = 0 \<or> int (length errs) < n then None
      else if n < int (length errs) then
        Some (ErrorString ''got more errors than there are backends. Probably something is broken'')
      else if n - nNotFound errs < (n + 1) div 2 then
        Some (ErrNotFound (''majority of backends returned not found. '' @ itoa n
                @ '' total errors, '' @ itoa (nNotFound errs) @ '' not found''))
      else
        Some (ErrorString (take 300 (''all backends failed with mixed errors: '' @ ''map[''
                @ join_sp (map (\<lambda>(s, c). s @ '':'' @ itoa c) (error_summary errs)) @ '']''))))"
proof -
  obtain cs nn where loop: "errorsFanIn_loop errs [] 0 = (cs, nn)" by (cases "errorsFanIn_loop errs [] 0")
  have nn: "nn = int (length errs) - nNotFound errs"
    using errorsFanIn_loop_snd [of errs "[]" 0] loop
    by (simp add: length_filter_not_NotFound nNotFound_def)
  have cs: "sort_key fst cs = error_summary errs"
    using errorsFanIn_loop_sorted [of errs] loop by simp
  have tk: "\<And>m::string. (if length m > 300 then take 300 m else m) = take 300 m" by simp
  show ?thesis
    unfolding errorsFanIn_def Let_def loop prod.case tk fmt_counts_def cs nn
    by (auto simp: )
qed


text \<open>An instance: five backends, two NotFound and three other errors.\<close>

theorem errorsFanIn_classification_witness:
  "errorsFanIn [ErrNotFound ''not found'', ErrNotFound ''not found'', ErrorString ''timeout'',
       ErrorString ''timeout'', ErrorString ''boom''] 5 =
     Some (ErrorString ''all backends failed with mixed errors: map[boom:1 not found:2 timeout:2]'')"
  using errorsFanIn_classification [of "[ErrNotFound ''not found'', ErrNotFound ''not found'', ErrorString ''timeout'',
       ErrorString ''timeout'', ErrorString ''boom'']" 5]
  by (simp add: nNotFound_def error_summary_def itoa_def nat_digits.simps digit_char_def)


text \<open>
  C2 (as the code has it). For three backends and the errors NotFound, NotFound and
  one other error, one error is not NotFound and the majority is 2, so the reconciler
  returns the NotFound error, not the mixed failure.
\<close>

theorem errorsFanIn_NotFound_majority_of_three:
  "errorsFanIn [ErrNotFound a, ErrNotFound b, ErrorString t] 3 =
     Some (ErrNotFound ''majority of backends returned not found. 3 total errors, 2 not found'')
   \<and> is_not_found (errorsFanIn [ErrNotFound a, ErrNotFound b, ErrorString t] 3)
   \<and> \<not> is_mixed_failure (errorsFanIn [ErrNotFound a, ErrNotFound b, ErrorString t] 3)"
  by (simp add: errorsFanIn_def is_not_found_def is_mixed_failure_def itoa_small)


text \<open>The claim as stated (a mixed failure for NotFound, NotFound, timeout) fails.\<close>

theorem errorsFanIn_three_not_mixed_counterexample:
  "\<not> is_mixed_failure
       (errorsFanIn [ErrNotFound ''not found'', ErrNotFound ''not found'', ErrorString ''timeout''] 3)"
  by (simp add: errorsFanIn_def is_mixed_failure_def)


section \<open>Properties of the handlers\<close>

lemma sorts_by_Path_Nil: "sorts_by_Path srt \<Longrightarrow> srt [] = []"
  using mset_zero_iff by (fastforce simp: sorts_by_Path_def)

lemma sorts_by_Path_sort_key: "sorts_by_Path (sort_key Path)"
  by (simp add: sorts_by_Path_def)

text \<open>What \<^verbatim>\<open>findHandler\<close> answers when it goes on to the encoders, spelled out.\<close>

lemma find_respond_unfold:
  "find_respond lib gw09 format metrics =
     (let ms = metrics\<lparr>Matches := sort_Slice lib (Matches metrics)\<rparr>;
          failed = \<lparr>code = 500, contentType = ''text/plain; charset=utf-8'',
                    body = ''error marshaling data'' @ [CHR 0x0A]\<rparr>
      in if format = ''protobuf'' \<or> format = ''protobuf3'' then
           (case carbonapi_v2_FindEncoder lib ms of None \<Rightarrow> failed
            | Some blob \<Rightarrow> \<lparr>code = 200, contentType = ''application/x-protobuf'', body = blob\<rparr>)
         else if format = ''json'' then
           (case json_FindEncoder lib ms of None \<Rightarrow> failed
            | Some blob \<Rightarrow> \<lparr>code = 200, contentType = ''application/json'', body = blob\<rparr>)
         else if format = [] \<or> format = ''pickle'' then
           (case (if gw09 then pickle_FindEncoderV0_9 lib ms else pickle_FindEncoderV1_0 lib ms) of
              None \<Rightarrow> failed
            | Some blob \<Rightarrow> \<lparr>code = 200, contentType = ''application/pickle'', body = blob\<rparr>)
         else failed)"
  by (simp add: find_respond_def find_encode_def http_Error_def Let_def StatusOK_def
      StatusInternalServerError_def contentTypeJSON_def contentTypeProtobuf_def
      contentTypePickle_def formatTypeEmpty_def formatTypePickle_def formatTypeJSON_def
      formatTypeProtobuf_def formatTypeProtobuf3_def)

lemma errorsFanIn_Nil: "errorsFanIn [] n = None"
  by (simp add: errorsFanIn_def)

lemma findHandler_goes_on:
  "errorsFanIn errs n = None \<or> is_not_found (errorsFanIn errs n) \<Longrightarrow>
   findHandler lib gw09 format metrics errs n = find_respond lib gw09 format metrics"
  by (auto simp: findHandler_def is_not_found_def split: option.splits goerror.splits)

lemma renderHandler_unfold:
  "renderHandler enc format metrics errs n =
     (case errorsFanIn errs n of
        Some (ErrNotFound m) \<Rightarrow>
          \<lparr>code = 404, contentType = ''text/plain; charset=utf-8'', body = ''not found'' @ [CHR 0x0A]\<rparr>
      | Some (ErrorString m) \<Rightarrow>
          \<lparr>code = 500, contentType = ''text/plain; charset=utf-8'',
            body = ''error fetching the data'' @ [CHR 0x0A]\<rparr>
      | None \<Rightarrow>
         (let failed = \<lparr>code = 500, contentType = ''text/plain; charset=utf-8'',
                    body = ''error marshaling data'' @ [CHR 0x0A]\<rparr>
          in if format = ''protobuf'' \<or> format = ''protobuf3'' then
           (case carbonapi_v2_RenderEncoder enc metrics of None \<Rightarrow> failed
            | Some blob \<Rightarrow> \<lparr>code = 200, contentType = ''application/x-protobuf'', body = blob\<rparr>)
         else if format = ''json'' then
           (case json_RenderEncoder enc metrics of None \<Rightarrow> failed
            | Some blob \<Rightarrow> \<lparr>code = 200, contentType = ''application/json'', body = blob\<rparr>)
         else if format = [] \<or> format = ''pickle'' then
           (case pickle_RenderEncoder enc metrics of None \<Rightarrow> failed
            | Some blob \<Rightarrow> \<lparr>code = 200, contentType = ''application/pickle'', body = blob\<rparr>)
         else failed))"
  by (simp add: renderHandler_def render_encode_def http_Error_def Let_def StatusOK_def
      StatusInternalServerError_def StatusNotFound_def contentTypeJSON_def contentTypeProtobuf_def
      contentTypePickle_def formatTypeEmpty_def formatTypePickle_def formatTypeJSON_def
      formatTypeProtobuf_def formatTypeProtobuf3_def split: option.splits goerror.splits)

text \<open>
  C9. With no backend attempted and no error the reconciler returns no error, and the
  handlers go on to encode what they have: for each format of the format switch, when
  its encoder returns a blob, the answer is 200 with that format's content type and
  the blob as body. The find encoder is given the matches after the sort, which for
  an empty result is the value as it came.
\<close>

theorem errorsFanIn_no_backends:
  "errorsFanIn [] 0 = None
   \<and> is_success (errorsFanIn [] 0)
   \<and> (sorts_by_Path (sort_Slice lib) \<and> Matches metrics = [] \<longrightarrow>
        metrics\<lparr>Matches := sort_Slice lib (Matches metrics)\<rparr> = metrics)
   \<and> ((format = ''protobuf'' \<or> format = ''protobuf3'')
        \<and> carbonapi_v2_FindEncoder lib (metrics\<lparr>Matches := sort_Slice lib (Matches metrics)\<rparr>) = Some blob \<longrightarrow>
        findHandler lib gw09 format metrics [] 0
          = \<lparr>code = 200, contentType = ''application/x-protobuf'', body = blob\<rparr>)
   \<and> (format = ''json''
        \<and> json_FindEncoder lib (metrics\<lparr>Matches := sort_Slice lib (Matches metrics)\<rparr>) = Some blob \<longrightarrow>
        findHandler lib gw09 format metrics [] 0
          = \<lparr>code = 200, contentType = ''application/json'', body = blob\<rparr>)
   \<and> ((format = [] \<or> format = ''pickle'') \<and> gw09
        \<and> pickle_FindEncoderV0_9 lib (metrics\<lparr>Matches := sort_Slice lib (Matches metrics)\<rparr>) = Some blob \<longrightarrow>
        findHandler lib gw09 format metrics [] 0
          = \<lparr>code = 200, contentType = ''application/pickle'', body = blob\<rparr>)
   \<and> ((format = [] \<or> format = ''pickle'') \<and> \<not> gw09
        \<and> pickle_FindEncoderV1_0 lib (metrics\<lparr>Matches := sort_Slice lib (Matches metrics)\<rparr>) = Some blob \<longrightarrow>
        findHandler lib gw09 format metrics [] 0
          = \<lparr>code = 200, contentType = ''application/pickle'', body = blob\<rparr>)
   \<and> ((format = ''protobuf'' \<or> format = ''protobuf3'')
        \<and> carbonapi_v2_RenderEncoder renc series = Some blob \<longrightarrow>
        renderHandler renc format series [] 0
          = \<lparr>code = 200, contentType = ''application/x-protobuf'', body = blob\<rparr>)
   \<and> (format = ''json'' \<and> json_RenderEncoder renc series = Some blob \<longrightarrow>
        renderHandler renc format series [] 0
          = \<lparr>code = 200, contentType = ''application/json'', body = blob\<rparr>)
   \<and> ((format = [] \<or> format = ''pickle'') \<and> pickle_RenderEncoder renc series = Some blob \<longrightarrow>
        renderHandler renc format series [] 0
          = \<lparr>code = 200, contentType = ''application/pickle'', body = blob\<rparr>)"
proof -
  have f: "findHandler lib gw09 format metrics [] 0 = find_respond lib gw09 format metrics"
    by (rule findHandler_goes_on) (simp add: errorsFanIn_Nil)
  have e: "sorts_by_Path (sort_Slice lib) \<and> Matches metrics = [] \<longrightarrow>
        metrics\<lparr>Matches := sort_Slice lib (Matches metrics)\<rparr> = metrics"
    by (auto simp: sorts_by_Path_Nil)
  have n: "errorsFanIn [] 0 = None" by (rule errorsFanIn_Nil)
  show ?thesis
    unfolding f find_respond_unfold renderHandler_unfold n is_success_def Let_def
    apply (intro conjI impI)
             apply simp
            apply simp
           apply (use e in blast)
          apply (elim conjE disjE; simp; fail)
         apply (elim conjE disjE; simp; fail)
        apply (elim conjE disjE; simp; fail)
       apply (elim conjE disjE; simp; fail)
      apply (elim conjE disjE; simp; fail)
     apply (elim conjE disjE; simp; fail)
    apply (elim conjE disjE; simp; fail)
    done
qed

text \<open>An instance with the empty result, for find and for render.\<close>

theorem errorsFanIn_no_backends_witness:
  "sorts_by_Path (sort_Slice example_find_lib)
   \<and> findHandler example_find_lib False ''json'' \<lparr>Matches = []\<rparr> [] 0
       = \<lparr>code = 200, contentType = ''application/json'', body = ''[]''\<rparr>
   \<and> findHandler example_find_lib False [] \<lparr>Matches = []\<rparr> [] 0
       = \<lparr>code = 200, contentType = ''application/pickle'', body = ''().''\<rparr>
   \<and> renderHandler example_render_encoders ''json'' [] [] 0
       = \<lparr>code = 200, contentType = ''application/json'', body = ''[]''\<rparr>"
  using errorsFanIn_no_backends [of example_find_lib "\<lparr>Matches = []\<rparr>" "''json''" "''[]''" False
      example_render_encoders "[]"]
    errorsFanIn_no_backends [of example_find_lib "\<lparr>Matches = []\<rparr>" "[]" "''().''" False
      example_render_encoders "[]"]
  by (simp add: example_find_lib_def example_render_encoders_def sorts_by_Path_sort_key)

text \<open>
  C8. What the handlers answer to a reconciled error. The render handler answers a
  NotFound with 404, and both handlers answer every other error with 500. The find
  handler, after a NotFound, has no return: it goes on to the sort, the format
  switch and the encoder, so it answers 200 with the encoder's blob as body (and 500
  when the encoding fails), where the comment in the handler asks for an empty body.
\<close>

theorem handlers_map_reconciled_error:
  "(is_not_found (errorsFanIn errs n) \<longrightarrow>
      renderHandler renc format series errs n
        = \<lparr>code = 404, contentType = ''text/plain; charset=utf-8'', body = ''not found'' @ [CHR 0x0A]\<rparr>
      \<and> findHandler lib gw09 format metrics errs n =
         (let ms = metrics\<lparr>Matches := sort_Slice lib (Matches metrics)\<rparr>;
              failed = \<lparr>code = 500, contentType = ''text/plain; charset=utf-8'',
                        body = ''error marshaling data'' @ [CHR 0x0A]\<rparr>
          in if format = ''protobuf'' \<or> format = ''protobuf3'' then
               (case carbonapi_v2_FindEncoder lib ms of None \<Rightarrow> failed
                | Some blob \<Rightarrow> \<lparr>code = 200, contentType = ''application/x-protobuf'', body = blob\<rparr>)
             else if format = ''json'' then
               (case json_FindEncoder lib ms of None \<Rightarrow> failed
                | Some blob \<Rightarrow> \<lparr>code = 200, contentType = ''application/json'', body = blob\<rparr>)
             else if format = [] \<or> format = ''pickle'' then
               (case (if gw09 then pickle_FindEncoderV0_9 lib ms else pickle_FindEncoderV1_0 lib ms) of
                  None \<Rightarrow> failed
                | Some blob \<Rightarrow> \<lparr>code = 200, contentType = ''application/pickle'', body = blob\<rparr>)
             else failed))
   \<and> (\<forall>m. errorsFanIn errs n = Some (ErrorString m) \<longrightarrow>
      findHandler lib gw09 format metrics errs n
        = \<lparr>code = 500, contentType = ''text/plain; charset=utf-8'', body = m @ [CHR 0x0A]\<rparr>
      \<and> renderHandler renc format series errs n
        = \<lparr>code = 500, contentType = ''text/plain; charset=utf-8'',
            body = ''error fetching the data'' @ [CHR 0x0A]\<rparr>)"
proof (intro conjI impI allI)
  assume nf: "is_not_found (errorsFanIn errs n)"
  then show "renderHandler renc format series errs n
        = \<lparr>code = 404, contentType = ''text/plain; charset=utf-8'', body = ''not found'' @ [CHR 0x0A]\<rparr>"
    by (auto simp: renderHandler_unfold is_not_found_def split: option.splits goerror.splits)
  have "findHandler lib gw09 format metrics errs n = find_respond lib gw09 format metrics"
    using nf by (simp add: findHandler_goes_on)
  then show "findHandler lib gw09 format metrics errs n =
         (let ms = metrics\<lparr>Matches := sort_Slice lib (Matches metrics)\<rparr>;
              failed = \<lparr>code = 500, contentType = ''text/plain; charset=utf-8'',
                        body = ''error marshaling data'' @ [CHR 0x0A]\<rparr>
          in if format = ''protobuf'' \<or> format = ''protobuf3'' then
               (case carbonapi_v2_FindEncoder lib ms of None \<Rightarrow> failed
                | Some blob \<Rightarrow> \<lparr>code = 200, contentType = ''application/x-protobuf'', body = blob\<rparr>)
             else if format = ''json'' then
               (case json_FindEncoder lib ms of None \<Rightarrow> failed
                | Some blob \<Rightarrow> \<lparr>code = 200, contentType = ''application/json'', body = blob\<rparr>)
             else if format = [] \<or> format = ''pickle'' then
               (case (if gw09 then pickle_FindEncoderV0_9 lib ms else pickle_FindEncoderV1_0 lib ms) of
                  None \<Rightarrow> failed
                | Some blob \<Rightarrow> \<lparr>code = 200, contentType = ''application/pickle'', body = blob\<rparr>)
             else failed)"
    by (simp only: find_respond_unfold)
next
  fix m assume "errorsFanIn errs n = Some (ErrorString m)"
  then show "findHandler lib gw09 format metrics errs n
        = \<lparr>code = 500, contentType = ''text/plain; charset=utf-8'', body = m @ [CHR 0x0A]\<rparr>"
    and "renderHandler renc format series errs n
        = \<lparr>code = 500, contentType = ''text/plain; charset=utf-8'',
            body = ''error fetching the data'' @ [CHR 0x0A]\<rparr>"
    by (simp_all add: findHandler_def renderHandler_unfold http_Error_def StatusInternalServerError_def)
qed

text \<open>An instance: one backend that answers NotFound, and one that times out.\<close>

theorem handlers_map_reconciled_error_witness:
  "is_not_found (errorsFanIn [ErrNotFound ''not found''] 1)
   \<and> findHandler example_find_lib False ''json'' \<lparr>Matches = []\<rparr> [ErrNotFound ''not found''] 1
       = \<lparr>code = 200, contentType = ''application/json'', body = ''[]''\<rparr>
   \<and> renderHandler example_render_encoders ''json'' [] [ErrNotFound ''not found''] 1
       = \<lparr>code = 404, contentType = ''text/plain; charset=utf-8'', body = ''not found'' @ [CHR 0x0A]\<rparr>
   \<and> errorsFanIn [ErrorString ''timeout''] 1
       = Some (ErrorString ''all backends failed with mixed errors: map[timeout:1]'')
   \<and> findHandler example_find_lib False ''json'' \<lparr>Matches = []\<rparr> [ErrorString ''timeout''] 1
       = \<lparr>code = 500, contentType = ''text/plain; charset=utf-8'',
           body = ''all backends failed with mixed errors: map[timeout:1]'' @ [CHR 0x0A]\<rparr>
   \<and> renderHandler example_render_encoders ''json'' [] [ErrorString ''timeout''] 1
       = \<lparr>code = 500, contentType = ''text/plain; charset=utf-8'',
           body = ''error fetching the data'' @ [CHR 0x0A]\<rparr>"
proof -
  have nf: "is_not_found (errorsFanIn [ErrNotFound ''not found''] 1)"
    by (simp add: errorsFanIn_def is_not_found_def)
  have mx: "errorsFanIn [ErrorString ''timeout''] 1
         = Some (ErrorString ''all backends failed with mixed errors: map[timeout:1]'')"
    by (simp add: errorsFanIn_def fmt_counts_def counts_incr_def itoa_def nat_digits.simps digit_char_def)
  show ?thesis
    using nf mx
      handlers_map_reconciled_error [of "[ErrNotFound ''not found'']" 1 example_render_encoders
        "''json''" "[]" example_find_lib False "\<lparr>Matches = []\<rparr>"]
      handlers_map_reconciled_error [of "[ErrorString ''timeout'']" 1 example_render_encoders
        "''json''" "[]" example_find_lib False "\<lparr>Matches = []\<rparr>"]
    by (simp add: example_find_lib_def example_render_encoders_def)
qed

section \<open>The expression parser (pkg/parser/parser.go)\<close>

subsection \<open>Bytes, runes and the library functions the parser calls\<close>

text \<open>
  A Go string is its bytes: a \<open>string\<close> here is the list of them, and a rune is
  the natural number of its code point.
\<close>

definition RuneError :: nat where
  "RuneError = 0xFFFD"

definition in_range :: "nat \<Rightarrow> nat \<Rightarrow> nat \<Rightarrow> bool" where
  "in_range lo hi b \<longleftrightarrow> lo \<le> b \<and> b \<le> hi"

text \<open>
  \<^verbatim>\<open>utf8.DecodeRuneInString\<close>: the first rune of the string and its width in bytes;
  \<open>(RuneError, 0)\<close> for the empty string and \<open>(RuneError, 1)\<close> for a byte sequence
  that is not a UTF-8 encoding.
\<close>

fun DecodeRuneInString :: "string \<Rightarrow> nat \<times> nat" where
  "DecodeRuneInString [] = (RuneError, 0)"
| "DecodeRuneInString (c0 # s) =
     (let s0 = (of_char c0 :: nat) in
      if s0 < 0x80 then (s0, 1)
      else if s0 < 0xC2 \<or> 0xF4 < s0 then (RuneError, 1)
      else
        (let sz = (if s0 < 0xE0 then 2 else if s0 < 0xF0 then 3 else 4 :: nat);
             lo = (if s0 = 0xE0 then 0xA0 else if s0 = 0xF0 then 0x90 else 0x80 :: nat);
             hi = (if s0 = 0xED then 0x9F else if s0 = 0xF4 then 0x8F else 0xBF :: nat)
         in if length s + 1 < sz then (RuneError, 1)
            else
              (let s1 = (of_char (s ! 0) :: nat) in
               if \<not> in_range lo hi s1 then (RuneError, 1)
               else if sz \<le> 2 then ((s0 mod 0x20) * 0x40 + s1 mod 0x40, 2)
               else
                 (let s2 = (of_char (s ! 1) :: nat) in
                  if \<not> in_range 0x80 0xBF s2 then (RuneError, 1)
                  else if sz \<le> 3 then
                    ((s0 mod 0x10) * 0x1000 + (s1 mod 0x40) * 0x40 + s2 mod 0x40, 3)
                  else
                    (let s3 = (of_char (s ! 2) :: nat) in
                     if \<not> in_range 0x80 0xBF s3 then (RuneError, 1)
                     else ((s0 mod 0x08) * 0x40000 + (s1 mod 0x40) * 0x1000
                            + (s2 mod 0x40) * 0x40 + s3 mod 0x40, 4))))))"

text \<open>\<^verbatim>\<open>unicode.IsSpace\<close>: the white space of Latin-1 and the Unicode property
  White\_Space beyond it.\<close>

definition IsSpace :: "nat \<Rightarrow> bool" where
  "IsSpace r \<longleftrightarrow>
     in_range 0x09 0x0D r \<or> r = 0x20 \<or> r = 0x85 \<or> r = 0xA0 \<or> r = 0x1680
     \<or> in_range 0x2000 0x200A r \<or> r = 0x2028 \<or> r = 0x2029 \<or> r = 0x202F
     \<or> r = 0x205F \<or> r = 0x3000"

text \<open>
  What the parser uses from outside this source, as parameters: \<^verbatim>\<open>strconv.ParseFloat\<close>
  (\<open>None\<close> for its error), \<^verbatim>\<open>fmt.Sprint\<close> of a float, \<^verbatim>\<open>unicode.IsLetter\<close> beyond
  ASCII (where the replacement character U+FFFD, which \<^verbatim>\<open>RuneError\<close> is, is known
  not to be a letter), membership in the configured \<^verbatim>\<open>RangeTables\<close>, and for the argument
  accessors \<^verbatim>\<open>IntervalString\<close> (\<open>None\<close> for its error) and the conversion
  \<^verbatim>\<open>int(f)\<close> of a float. The type \<open>'f\<close> stands for \<^verbatim>\<open>float64\<close>.
\<close>

record 'f env =
  ParseFloat :: "string \<Rightarrow> 'f option"
  Sprint :: "'f \<Rightarrow> string"
  IsLetterTable :: "nat \<Rightarrow> bool"
  RangeTables :: "nat \<Rightarrow> bool"
  IntervalString :: "string \<Rightarrow> int \<Rightarrow> 32 word option"
  IntOfFloat :: "'f \<Rightarrow> int"

definition IsLetter :: "'f env \<Rightarrow> nat \<Rightarrow> bool" where
  "IsLetter env r \<longleftrightarrow>
     (if r < 0x80 then in_range 0x41 0x5A r \<or> in_range 0x61 0x7A r
      else if r = RuneError then False
      else IsLetterTable env r)"

definition unicode_In :: "'f env \<Rightarrow> nat \<Rightarrow> bool" where
  "unicode_In env r \<longleftrightarrow> RangeTables env r"

text \<open>The loop \<^verbatim>\<open>for len(e) > 1 && unicode.IsSpace(rune(e[0])) { e = e[1:] }\<close>.\<close>

fun skipSpace :: "string \<Rightarrow> string" where
  "skipSpace (c # d # e) = (if IsSpace (of_char c) then skipSpace (d # e) else c # d # e)"
| "skipSpace e = e"

text \<open>\<^verbatim>\<open>strings.TrimLeftFunc(e, unicode.IsSpace)\<close>, which decodes runes.\<close>

fun TrimLeftSpace :: "string \<Rightarrow> string" where
  "TrimLeftSpace [] = []"
| "TrimLeftSpace (c # e) =
     (let (r, w) = DecodeRuneInString (c # e) in
      if IsSpace r then TrimLeftSpace (drop (w - 1) e) else c # e)"

text \<open>
  \<^verbatim>\<open>strings.ToLower\<close> on the ASCII letters. The parser only compares its result with
  \<^verbatim>\<open>true\<close> and \<^verbatim>\<open>false\<close>, and no rune outside ASCII has one of their letters as
  its lower case, so the other bytes are left as they are.
\<close>

definition ToLower :: "string \<Rightarrow> string" where
  "ToLower s =
     map (\<lambda>c. if CHR ''A'' \<le> c \<and> c \<le> CHR ''Z'' then char_of (of_char c + (32::nat)) else c) s"

text \<open>\<^verbatim>\<open>strings.Replace(s, [old], new, -1)\<close> for a one-byte \<open>old\<close>.\<close>

definition Replace :: "string \<Rightarrow> char \<Rightarrow> string \<Rightarrow> string" where
  "Replace s old new = concat (map (\<lambda>c. if c = old then new else [c]) s)"

subsection \<open>Expressions\<close>

datatype ExprType = EtName | EtFunc | EtConst | EtString

text \<open>
  The struct \<^verbatim>\<open>expr\<close>. The map \<^verbatim>\<open>namedArgs\<close> is an association list with one
  entry per key; \<^verbatim>\<open>nil\<close> slices and maps are the empty lists. The zero value of
  \<^verbatim>\<open>etype\<close> is \<open>EtName\<close>.
\<close>

datatype 'f expr =
  Expr (target: string) (etype: ExprType) (val: 'f) (valStr: string)
       (args: "'f expr list") (namedArgs: "(string \<times> 'f expr) list") (argString: string)

datatype perr =
    ErrMissingExpr | ErrMissingArgument | ErrMissingComma | ErrMissingQuote
  | ErrMissingBrace | ErrMissingBracket | ErrNestedBrackets | ErrBraceInBrackets
  | ErrCommaInBrackets | ErrSpacesInBraces | ErrSpacesInBrackets
  | ErrUnexpectedCharacter | ErrBadType
  | NumError string
  | ErrPipeToNotAFunction
  | Panic

fun ToString :: "'f env \<Rightarrow> 'f expr \<Rightarrow> string" where
  "ToString env e =
     (case etype e of
        EtFunc \<Rightarrow> target e @ ''('' @ argString e @ '')''
      | EtConst \<Rightarrow> Sprint env (val e)
      | EtString \<Rightarrow>
          (let s = valStr e;
               s = Replace s (CHR 0x5C) [CHR 0x5C, CHR 0x5C];
               s = Replace s (CHR 0x27) [CHR 0x5C, CHR 0x27]
           in [CHR 0x27] @ s @ [CHR 0x27])
      | EtName \<Rightarrow> target e)"

definition insertFirstArg :: "'f env \<Rightarrow> 'f expr \<Rightarrow> 'f expr \<Rightarrow> perr + 'f expr" where
  "insertFirstArg env e exp' =
     (if etype e \<noteq> EtFunc then Inl ErrPipeToNotAFunction
      else Inr (Expr (target e) (etype e) (val e) (valStr e) ([exp'] @ args e) (namedArgs e)
                  (if argString e = [] then ToString env exp'
                   else ToString env exp' @ '','' @ argString e)))"

subsection \<open>Lexing\<close>

definition IsNameChar :: "char \<Rightarrow> bool" where
  "IsNameChar r \<longleftrightarrow>
     CHR ''a'' \<le> r \<and> r \<le> CHR ''z'' \<or>
     CHR ''A'' \<le> r \<and> r \<le> CHR ''Z'' \<or>
     CHR ''0'' \<le> r \<and> r \<le> CHR ''9'' \<or>
     r = CHR ''.'' \<or> r = CHR ''_'' \<or>
     r = CHR ''-'' \<or> r = CHR ''*'' \<or>
     r = CHR ''?'' \<or> r = CHR '':'' \<or>
     r = CHR ''^'' \<or> r = CHR ''$'' \<or>
     r = CHR ''<'' \<or> r = CHR ''>'' \<or>
     r = CHR ''&'' \<or> r = CHR ''#''"

definition isDigit :: "char \<Rightarrow> bool" where
  "isDigit r \<longleftrightarrow> CHR ''0'' \<le> r \<and> r \<le> CHR ''9''"

definition isConstChar :: "char \<Rightarrow> bool" where
  "isConstChar c \<longleftrightarrow>
     isDigit c \<or> c = CHR ''.'' \<or> c = CHR ''+'' \<or> c = CHR ''-'' \<or> c = CHR ''e'' \<or> c = CHR ''E''"

text \<open>\<^verbatim>\<open>parseConst\<close>: \<open>i\<close> is the length of the longest prefix of constant
  characters.\<close>

definition parseConst :: "('f::zero) env \<Rightarrow> string \<Rightarrow> 'f \<times> string \<times> perr option" where
  "parseConst env s =
     (let i = length (takeWhile isConstChar s) in
      case ParseFloat env (take i s) of
        None \<Rightarrow> (0, [], Some (NumError (take i s)))
      | Some v \<Rightarrow> (v, drop i s, None))"

definition parseString :: "string \<Rightarrow> string \<times> string \<times> perr option" where
  "parseString s0 =
     (case s0 of
        [] \<Rightarrow> ([], [], Some Panic)
      | match # s \<Rightarrow>
          if match \<noteq> CHR 0x27 \<and> match \<noteq> CHR 0x22 then ([], [], Some Panic)
          else
            (let i = length (takeWhile (\<lambda>c. c \<noteq> match) s) in
             if i = length s then ([], [], Some ErrMissingQuote)
             else (take i s, drop (i + 1) s, None)))"

text \<open>
  The loop of \<^verbatim>\<open>parseName\<close>, on the rest \<open>t = s[i:]\<close> of the string: an error return,
  or the values of \<open>i\<close>, \<open>braces\<close> and \<open>brackets\<close> when the loop ends or breaks.
\<close>

fun parseName_loop :: "'f env \<Rightarrow> string \<Rightarrow> nat \<Rightarrow> int \<Rightarrow> int \<Rightarrow> perr + nat \<times> int \<times> int" where
  "parseName_loop env [] i braces brackets = Inr (i, braces, brackets)"
| "parseName_loop env (c # t) i braces brackets =
     (if IsNameChar c then parseName_loop env t (i + 1) braces brackets
      else if c = CHR ''{'' then
        (if brackets > 0 then Inl ErrBraceInBrackets
         else parseName_loop env t (i + 1) (braces + 1) brackets)
      else if c = CHR ''}'' then
        (if brackets > 0 then Inl ErrBraceInBrackets
         else if braces = 0 then Inl ErrMissingBrace
         else parseName_loop env t (i + 1) (braces - 1) brackets)
      else if c = CHR ''['' then
        (if brackets > 0 then Inl ErrNestedBrackets
         else parseName_loop env t (i + 1) braces (brackets + 1))
      else if c = CHR '']'' then
        (if brackets = 0 then Inl ErrMissingBracket
         else parseName_loop env t (i + 1) braces (brackets - 1))
      else if c = CHR '','' then
        (if brackets > 0 then Inl ErrCommaInBrackets
         else if braces = 0 then Inr (i, braces, brackets)
         else parseName_loop env t (i + 1) braces brackets)
      else if c = CHR '' '' \<or> c = CHR 0x09 \<or> c = CHR 0x0A then
        (if braces > 0 then Inl ErrSpacesInBraces
         else if brackets > 0 then Inl ErrSpacesInBrackets
         else Inr (i, braces, brackets))
      else
        (let (r, w) = DecodeRuneInString (c # t) in
         if unicode_In env r then parseName_loop env (drop (w - 1) t) (i + w) braces brackets
         else Inr (i, braces, brackets)))"

definition parseName :: "'f env \<Rightarrow> string \<Rightarrow> string \<times> string \<times> perr option" where
  "parseName env s =
     (case parseName_loop env s 0 0 0 of
        Inl err \<Rightarrow> (s, [], Some err)
      | Inr (i, braces, brackets) \<Rightarrow>
          if braces > 0 then (s, [], Some ErrMissingBrace)
          else if brackets > 0 then (s, [], Some ErrMissingBracket)
          else if i = length s then (s, [], None)
          else (take i s, drop i s, None))"

subsection \<open>The rest is never longer than the input\<close>

lemma DecodeRuneInString_width: "snd (DecodeRuneInString s) \<le> length s"
  by (cases s) (auto simp: Let_def Suc_le_eq)

lemma skipSpace_length: "length (skipSpace e) \<le> length e"
  by (induction e rule: skipSpace.induct) auto

lemma TrimLeftSpace_length: "length (TrimLeftSpace e) \<le> length e"
proof (induction e rule: TrimLeftSpace.induct)
  case 1
  then show ?case by simp
next
  case (2 c e)
  obtain r w where rw: "DecodeRuneInString (c # e) = (r, w)" by (cases "DecodeRuneInString (c # e)")
  show ?case
  proof (cases "IsSpace r")
    case True
    then have "length (TrimLeftSpace (drop (w - 1) e)) \<le> length (drop (w - 1) e)"
      using "2.IH" [OF rw [symmetric]] by simp
    then show ?thesis using rw True by (simp del: DecodeRuneInString.simps)
  next
    case False
    then show ?thesis using rw by (simp del: DecodeRuneInString.simps)
  qed
qed

lemma parseName_rest_length: "length (fst (snd (parseName env s))) \<le> length s"
  by (auto simp: parseName_def split: sum.splits prod.splits)

lemma parseConst_rest_length: "length (fst (snd (parseConst env s))) \<le> length s"
  by (auto simp: parseConst_def Let_def split: option.splits)

lemma parseString_rest_length: "length (fst (snd (parseString s))) \<le> length s"
  by (auto simp: parseString_def Let_def split: list.splits)

lemma parseName_TrimLeftSpace_length:
  assumes "(name, y) = parseName env (skipSpace e0)" and "(e1, err) = y"
  shows "length (TrimLeftSpace e1) \<le> length e0"
proof -
  have "e1 = fst (snd (parseName env (skipSpace e0)))"
    using assms by (metis fst_conv snd_conv)
  then have "length e1 \<le> length (skipSpace e0)"
    using parseName_rest_length [of env "skipSpace e0"] by simp
  then show ?thesis
    using TrimLeftSpace_length [of e1] skipSpace_length [of e0] by linarith
qed

lemma tl_skipSpace_length: "skipSpace e0 \<noteq> [] \<Longrightarrow> length (skipSpace e0) - Suc 0 < length e0"
  using skipSpace_length [of e0] by (cases "skipSpace e0") auto

lemma length_pred_less: "xs \<noteq> [] \<Longrightarrow> length xs \<le> n \<Longrightarrow> length xs - Suc 0 < n"
  by (cases xs) auto

subsection \<open>The recursive descent\<close>

text \<open>
  A parse function returns Go's triple: the expression (\<open>None\<close> is \<^verbatim>\<open>nil\<close>), the rest of
  the string, and the error (\<open>None\<close> is \<^verbatim>\<open>nil\<close>). \<^verbatim>\<open>parseArgList\<close> returns its five values.

  The functions call each other on the rest that an earlier call returned. The tests
  \<open>length _ \<le> length _\<close> in front of these calls are what makes the recursion well
  founded; the rest is never longer than the input, so these tests never fail and the
  functions satisfy the equations without them, which is proved below
  (\<open>ParseExpr_unfold\<close>, \<open>pipe_unfold\<close>, \<open>parseArgList_loop_unfold\<close>).
\<close>

type_synonym 'f parse_result = "'f expr option \<times> string \<times> perr option"

type_synonym 'f arglist_result =
  "string \<times> 'f expr list \<times> (string \<times> 'f expr) list \<times> string \<times> perr option"

definition copy_namedArg :: "('f::zero) expr \<Rightarrow> 'f expr" where
  "copy_namedArg argCont = Expr (target argCont) (etype argCont) (val argCont) (valStr argCont) [] [] []"

definition buf_write :: "string \<Rightarrow> string \<Rightarrow> string" where
  "buf_write buf s = (if length buf > 0 then buf @ '','' @ s else buf @ s)"

function
  parseExprWithoutPipe :: "('f::zero) env \<Rightarrow> string \<Rightarrow> 'f parse_result" and
  ParseExpr :: "'f env \<Rightarrow> string \<Rightarrow> 'f parse_result" and
  pipe :: "'f env \<Rightarrow> 'f expr \<Rightarrow> string \<Rightarrow> 'f parse_result" and
  parseArgList :: "'f env \<Rightarrow> string \<Rightarrow> 'f arglist_result" and
  parseArgList_loop ::
    "'f env \<Rightarrow> string \<Rightarrow> 'f expr list \<Rightarrow> (string \<times> 'f expr) list \<Rightarrow> string \<Rightarrow> 'f arglist_result"
where
  "parseExprWithoutPipe env e0 =
     (let e = skipSpace e0 in
      if length e = 0 then (None, [], Some ErrMissingExpr)
      else if (isDigit (hd e) \<or> hd e = CHR ''-'' \<or> hd e = CHR ''+'')
            \<and> \<not> IsLetter env (fst (DecodeRuneInString (fst (snd (parseConst env e))))) then
        (case parseConst env e of (v, tail, err) \<Rightarrow> (Some (Expr [] EtConst v [] [] [] []), tail, err))
      else if hd e = CHR 0x27 \<or> hd e = CHR 0x22 then
        (case parseString e of (v, tail, err) \<Rightarrow> (Some (Expr [] EtString 0 v [] [] []), tail, err))
      else
        (case parseName env e of (name, e1, err) \<Rightarrow>
           if err \<noteq> None then (None, e1, err)
           else if ToLower name = ''false'' \<or> ToLower name = ''true'' then
             (Some (Expr name EtString 0 name [] [] []), e1, None)
           else if name = [] then (None, e1, Some ErrMissingArgument)
           else
             (let e2 = TrimLeftSpace e1 in
              if e2 \<noteq> [] \<and> hd e2 = CHR ''('' then
                (case parseArgList env e2 of (argStr, posArgs, named, e3, err) \<Rightarrow>
                   (Some (Expr name EtFunc 0 [] posArgs named argStr), e3, err))
              else (Some (Expr name EtName 0 [] [] [] []), e2, None))))"
| "ParseExpr env e =
     (case parseExprWithoutPipe env e of (exp', e1, err) \<Rightarrow>
        if err \<noteq> None then (exp', e1, err)
        else
          (case exp' of
             None \<Rightarrow> (None, e1, Some Panic)
           | Some x \<Rightarrow> if length e1 \<le> length e then pipe env x e1 else (None, e1, Some Panic)))"
| "pipe env exp' e0 =
     (let e = skipSpace e0 in
      if e = [] \<or> hd e \<noteq> CHR ''|'' then (Some exp', e, None)
      else
        (case parseExprWithoutPipe env (tl e) of (wr, e1, err) \<Rightarrow>
           if err \<noteq> None then (Some exp', e1, err)
           else
             (case wr of
                None \<Rightarrow> (Some exp', e1, None)
              | Some w \<Rightarrow>
                  (case insertFirstArg env w exp' of
                     Inl err \<Rightarrow> (Some exp', e1, Some err)
                   | Inr w' \<Rightarrow>
                       if length e1 < length e0 then pipe env w' e1
                       else (Some exp', e1, Some Panic)))))"
| "parseArgList env e =
     (if e = [] \<or> hd e \<noteq> CHR ''('' then ([], [], [], [], Some Panic)
      else
        (let e = tl e; t = TrimLeftSpace e in
         if t \<noteq> [] \<and> hd t = CHR '')'' then ([], [], [], tl t, None)
         else parseArgList_loop env e [] [] []))"
| "parseArgList_loop env e posArgs named argStringBuffer =
     (let argStr = e in
      case ParseExpr env e of (arg, e1, err) \<Rightarrow>
        if err \<noteq> None then ([], [], [], e1, err)
        else if e1 = [] then ([], [], [], [], Some ErrMissingComma)
        else
          (case arg of
             None \<Rightarrow> ([], [], [], [], Some Panic)
           | Some a \<Rightarrow>
               (case
                  (if etype a = EtName \<and> hd e1 = CHR ''='' then
                     (if \<not> length e1 \<le> length e then Inl ([], [], [], [], Some Panic)
                      else
                        (case ParseExpr env (tl e1) of (argCont, eCont, errCont) \<Rightarrow>
                           if errCont \<noteq> None then Inl ([], [], [], eCont, errCont)
                           else if eCont = [] then Inl ([], [], [], [], Some ErrMissingComma)
                           else
                             (case argCont of
                                None \<Rightarrow> Inl ([], [], [], [], Some Panic)
                              | Some ac \<Rightarrow>
                                  if etype ac \<noteq> EtConst \<and> etype ac \<noteq> EtName \<and> etype ac \<noteq> EtString
                                  then Inl ([], [], [], eCont, Some ErrBadType)
                                  else
                                    Inr (eCont, posArgs,
                                         AList.update (target a) (copy_namedArg ac) named,
                                         buf_write argStringBuffer
                                           (take (length argStr - length eCont) argStr)))))
                   else
                     Inr (e1, posArgs @ [a], named,
                          buf_write argStringBuffer
                            (if etype a = EtFunc then ToString env a
                             else take (length argStr - length e1) argStr)))
                of
                  Inl ret \<Rightarrow> ret
                | Inr (e2, posArgs, named, argStringBuffer) \<Rightarrow>
                    (let e3 = TrimLeftSpace e2 in
                     if length e3 = 0 then ([], [], [], [], Some ErrUnexpectedCharacter)
                     else if hd e3 = CHR '')'' then (argStringBuffer, posArgs, named, tl e3, None)
                     else if hd e3 \<noteq> CHR '','' \<and> hd e3 \<noteq> CHR '' '' then
                       ([], [], [], [], Some ErrUnexpectedCharacter)
                     else if length e3 \<le> length e then
                       parseArgList_loop env (tl e3) posArgs named argStringBuffer
                     else ([], [], [], [], Some Panic)))))"
  by pat_completeness auto

termination
  apply (relation "inv_image (less_than <*lex*> less_than)
     (\<lambda>x. case x of
        Inl (Inl (env, e)) \<Rightarrow> (length e, 2::nat)
      | Inl (Inr (env, e)) \<Rightarrow> (length e, 3)
      | Inr (Inl (env, exp', e)) \<Rightarrow> (length e, 0)
      | Inr (Inr (Inl (env, e))) \<Rightarrow> (length e, 1)
      | Inr (Inr (Inr (env, e, posArgs, named, buf))) \<Rightarrow> (length e, 4))")
           apply (intro wf_inv_image wf_lex_prod wf_less_than)
          apply (simp add: le_imp_less_or_eq parseName_TrimLeftSpace_length)
         apply simp
        apply (simp add: le_imp_less_or_eq)
       apply (simp add: tl_skipSpace_length)
      apply simp
     apply (auto simp: le_imp_less_or_eq)[1]
    apply simp
   apply (auto simp: le_imp_less_or_eq length_pred_less)[1]
  apply (auto simp: le_imp_less_or_eq length_pred_less)[1]
  done

declare parseExprWithoutPipe.simps [simp del] ParseExpr.simps [simp del] pipe.simps [simp del]
  parseArgList.simps [simp del] parseArgList_loop.simps [simp del]

subsection \<open>An environment for the instances\<close>

text \<open>
  \<^verbatim>\<open>strconv.ParseFloat(s, 64)\<close> on the strings \<^verbatim>\<open>parseConst\<close> passes to it, which hold
  only digits, signs, the point and the letter e: an optional sign, digits with at most
  one point and at least one digit, and an optional exponent of at least one digit;
  a value that rounds beyond the largest \<^verbatim>\<open>float64\<close> is the range error. The value
  is the exact decimal, as a rational number: the rounding to \<^verbatim>\<open>float64\<close> is not
  modelled.
\<close>

definition digits_val :: "string \<Rightarrow> nat" where
  "digits_val ds = foldl (\<lambda>n c. 10 * n + (of_char c - of_char CHR ''0'')) 0 ds"

definition strip_sign :: "string \<Rightarrow> bool \<times> string" where
  "strip_sign s =
     (case s of
        [] \<Rightarrow> (False, [])
      | c # t \<Rightarrow> if c = CHR ''+'' then (False, t) else if c = CHR ''-'' then (True, t) else (False, s))"

definition pow10 :: "int \<Rightarrow> rat" where
  "pow10 k = (if 0 \<le> k then 10 ^ nat k else 1 / 10 ^ nat (- k))"

definition dec_value :: "bool \<Rightarrow> string \<Rightarrow> string \<Rightarrow> int \<Rightarrow> rat option" where
  "dec_value neg ip fp ex =
     (let v = of_nat (digits_val (ip @ fp)) * pow10 (ex - int (length fp)) in
      if v \<ge> 2 ^ 1024 - 2 ^ 970 then None else Some (if neg then - v else v))"

definition ParseFloat_dec :: "string \<Rightarrow> rat option" where
  "ParseFloat_dec s =
     (let (neg, s1) = strip_sign s;
          ip = takeWhile isDigit s1;
          r1 = dropWhile isDigit s1;
          (fp, r2) = (case r1 of
                        [] \<Rightarrow> ([], [])
                      | c # t \<Rightarrow> if c = CHR ''.'' then (takeWhile isDigit t, dropWhile isDigit t)
                                 else ([], r1))
      in if ip = [] \<and> fp = [] then None
         else
           (case r2 of
              [] \<Rightarrow> dec_value neg ip fp 0
            | c # t \<Rightarrow>
                if c = CHR ''e'' \<or> c = CHR ''E'' then
                  (let (eneg, t1) = strip_sign t;
                       ed = takeWhile isDigit t1
                   in if ed = [] \<or> dropWhile isDigit t1 \<noteq> [] then None
                      else dec_value neg ip fp
                             (if eneg then - int (digits_val ed) else int (digits_val ed)))
                else None))"

text \<open>
  The environment of the instances: the decimal \<^verbatim>\<open>ParseFloat\<close> and the default, empty
  \<^verbatim>\<open>RangeTables\<close>; the other library functions are those of \<open>lib\<close>, whatever they are.
\<close>

definition go_env :: "rat env \<Rightarrow> rat env" where
  "go_env lib = lib\<lparr>ParseFloat := ParseFloat_dec, RangeTables := (\<lambda>r. False)\<rparr>"

definition rest5 :: "'a \<times> 'b \<times> 'c \<times> string \<times> 'd \<Rightarrow> string" where
  "rest5 r = fst (snd (snd (snd r)))"

lemma rest5_simp [simp]: "rest5 (a, b, c, d, e) = d"
  by (simp add: rest5_def)

lemma parseName_restD: "parseName env s = (n, r, er) \<Longrightarrow> length r \<le> length s"
  using parseName_rest_length [of env s] by simp

lemma parseConst_restD: "parseConst env s = (n, r, er) \<Longrightarrow> length r \<le> length s"
  using parseConst_rest_length [of env s] by simp

lemma parseString_restD: "parseString s = (n, r, er) \<Longrightarrow> length r \<le> length s"
  using parseString_rest_length [of s] by simp

lemma parse_rest_length:
  fixes env :: "('f::zero) env"
  shows "length (fst (snd (parseExprWithoutPipe env e0))) \<le> length e0"
    and "length (fst (snd (ParseExpr env e))) \<le> length e"
    and "length (fst (snd (pipe env x e1))) \<le> length e1"
    and "length (rest5 (parseArgList env e2)) \<le> length e2"
    and "length (rest5 (parseArgList_loop env e3 posArgs named buf)) \<le> length e3"
proof (induction env e0 and env e and env x e1 and env e2 and env e3 posArgs named buf
    rule: parseExprWithoutPipe_ParseExpr_pipe_parseArgList_parseArgList_loop.induct)
  case (1 env e0)
  have sk: "length (skipSpace e0) \<le> length e0" by (rule skipSpace_length)
  obtain v tail cerr where pc: "parseConst env (skipSpace e0) = (v, tail, cerr)"
    by (cases "parseConst env (skipSpace e0)")
  obtain sv stail serr where ps: "parseString (skipSpace e0) = (sv, stail, serr)"
    by (cases "parseString (skipSpace e0)")
  obtain name n1 nerr where pn: "parseName env (skipSpace e0) = (name, n1, nerr)"
    by (cases "parseName env (skipSpace e0)")
  have tr: "length (TrimLeftSpace n1) \<le> length e0"
    using TrimLeftSpace_length [of n1] parseName_restD [OF pn] sk by linarith
  note ih = "1.IH" [OF refl _ _ _ pn [symmetric] refl _ _ _ refl]
  show ?case
    apply (subst parseExprWithoutPipe.simps)
    using sk parseConst_restD [OF pc] parseString_restD [OF ps] parseName_restD [OF pn] tr ih
    apply (auto simp: Let_def pc ps pn split: prod.splits)
    done
next
  case (2 env e)
  obtain x a err where p: "parseExprWithoutPipe env e = (x, a, err)"
    by (cases "parseExprWithoutPipe env e")
  have a: "length a \<le> length e" using "2.IH"(1) p by simp
  show ?case
  proof (cases "err = None \<and> x \<noteq> None")
    case True
    then obtain x2 where x2: "x = Some x2" by auto
    have "length (fst (snd (pipe env x2 a))) \<le> length a"
      using "2.IH"(2) [OF p [symmetric] refl _ x2 a] True by simp
    then show ?thesis
      using a True x2 by (subst ParseExpr.simps) (simp add: p)
  next
    case False
    then show ?thesis
      using a by (subst ParseExpr.simps) (auto simp: p split: option.splits)
  qed
next
  case (3 env x e0)
  have sk: "length (skipSpace e0) \<le> length e0" by (rule skipSpace_length)
  show ?case
  proof (cases "skipSpace e0 = [] \<or> hd (skipSpace e0) \<noteq> CHR ''|''")
    case True
    then show ?thesis using sk by (subst pipe.simps) (auto simp: Let_def)
  next
    case False
    obtain wr a err where p: "parseExprWithoutPipe env (tl (skipSpace e0)) = (wr, a, err)"
      by (cases "parseExprWithoutPipe env (tl (skipSpace e0))")
    have "length a \<le> length (tl (skipSpace e0))"
      using "3.IH"(1) [OF refl False] p by simp
    then have a: "length a < length e0"
      using False sk by (cases "skipSpace e0") auto
    show ?thesis
    proof (cases "err = None \<and> wr \<noteq> None \<and> \<not> isl (insertFirstArg env (the wr) x)")
      case True
      then obtain w w' where w: "wr = Some w" "insertFirstArg env w x = Inr w'"
        by (cases wr; cases "insertFirstArg env (the wr) x") auto
      have "length (fst (snd (pipe env w' a))) \<le> length a"
        using "3.IH"(2) [OF refl False p [symmetric] refl _ w(1) w(2) a] True by simp
      then show ?thesis
        using a False w True by (subst pipe.simps) (simp add: Let_def p)
    next
      case F2: False
      then show ?thesis
        using a False by (subst pipe.simps) (auto simp: Let_def p split: option.splits sum.splits)
    qed
  qed
next
  case (4 env e)
  show ?case
  proof (cases "e = [] \<or> hd e \<noteq> CHR ''(''")
    case True
    then show ?thesis by (subst parseArgList.simps) auto
  next
    case False
    have t: "length (TrimLeftSpace (tl e)) \<le> length (tl e)" by (rule TrimLeftSpace_length)
    show ?thesis
    proof (cases "TrimLeftSpace (tl e) \<noteq> [] \<and> hd (TrimLeftSpace (tl e)) = CHR '')''")
      case True
      then show ?thesis
        using False t by (subst parseArgList.simps) (auto simp: Let_def)
    next
      case F2: False
      have "length (rest5 (parseArgList_loop env (tl e) [] [] [])) \<le> length (tl e)"
        using "4.IH" [OF False refl refl F2] .
      then show ?thesis
        using False F2 by (subst parseArgList.simps) (auto simp: Let_def)
    qed
  qed
next
  case (5 env e posArgs named argStringBuffer)
  obtain arg a err where p: "ParseExpr env e = (arg, a, err)"
    by (cases "ParseExpr env e")
  obtain argCont eCont errCont where q: "ParseExpr env (tl a) = (argCont, eCont, errCont)"
    by (cases "ParseExpr env (tl a)")
  have a: "length a \<le> length e" using "5.IH"(1) [OF refl] p by simp
  show ?case
  proof (cases "err = None \<and> a \<noteq> [] \<and> arg \<noteq> None")
    case False
    then show ?thesis
      using a by (subst parseArgList_loop.simps) (auto simp: Let_def p split: option.splits)
  next
    case True
    then obtain x2 where x2: "arg = Some x2" and err: "err = None" and ane: "a \<noteq> []" by auto
    have nerr: "\<not> err \<noteq> None" using err by simp
    have ec: "etype x2 = EtName \<and> hd a = CHR ''='' \<Longrightarrow> length eCont \<le> length (tl a)"
      using "5.IH"(2) [OF refl p [symmetric] refl nerr ane x2] a q by simp
    define M :: "'f arglist_result + string \<times> 'f expr list \<times> (string \<times> 'f expr) list \<times> string"
      where "M =
      (if etype x2 = EtName \<and> hd a = CHR ''='' then
         (if \<not> length a \<le> length e then Inl ([], [], [], [], Some Panic)
          else
            (case ParseExpr env (tl a) of (argCont, eCont, errCont) \<Rightarrow>
               if errCont \<noteq> None then Inl ([], [], [], eCont, errCont)
               else if eCont = [] then Inl ([], [], [], [], Some ErrMissingComma)
               else
                 (case argCont of
                    None \<Rightarrow> Inl ([], [], [], [], Some Panic)
                  | Some ac \<Rightarrow>
                      if etype ac \<noteq> EtConst \<and> etype ac \<noteq> EtName \<and> etype ac \<noteq> EtString
                      then Inl ([], [], [], eCont, Some ErrBadType)
                      else
                        Inr (eCont, posArgs,
                             AList.update (target x2) (copy_namedArg ac) named,
                             buf_write argStringBuffer
                               (take (length e - length eCont) e)))))
       else
         Inr (a, posArgs @ [x2], named,
              buf_write argStringBuffer
                (if etype x2 = EtFunc then ToString env x2
                 else take (length e - length a) e)))"
    have loop_eq: "parseArgList_loop env e posArgs named argStringBuffer =
      (case M of
         Inl ret \<Rightarrow> ret
       | Inr (e2, pa, na, b) \<Rightarrow>
           (let e3 = TrimLeftSpace e2 in
            if length e3 = 0 then ([], [], [], [], Some ErrUnexpectedCharacter)
            else if hd e3 = CHR '')'' then (b, pa, na, tl e3, None)
            else if hd e3 \<noteq> CHR '','' \<and> hd e3 \<noteq> CHR '' '' then
              ([], [], [], [], Some ErrUnexpectedCharacter)
            else if length e3 \<le> length e then parseArgList_loop env (tl e3) pa na b
            else ([], [], [], [], Some Panic)))"
      by (subst parseArgList_loop.simps) (simp add: Let_def p x2 err ane M_def)
    have M_cases: "(\<exists>ret. M = Inl ret \<and> length (rest5 ret) \<le> length e)
        \<or> (\<exists>e2 pa na b. M = Inr (e2, pa, na, b) \<and> length e2 \<le> length e)"
      using a ec by (auto simp: M_def q split: option.splits)
    show ?thesis
    proof (rule disjE [OF M_cases])
      assume "\<exists>ret. M = Inl ret \<and> length (rest5 ret) \<le> length e"
      then show ?thesis by (auto simp: loop_eq)
    next
      assume "\<exists>e2 pa na b. M = Inr (e2, pa, na, b) \<and> length e2 \<le> length e"
      then obtain e2 pa na b where m: "M = Inr (e2, pa, na, b)" and e2: "length e2 \<le> length e"
        by blast
      have e3: "length (TrimLeftSpace e2) \<le> length e"
        using TrimLeftSpace_length [of e2] e2 by linarith
      show ?thesis
      proof (cases "length (TrimLeftSpace e2) \<noteq> 0 \<and> hd (TrimLeftSpace e2) \<noteq> CHR '')''
          \<and> \<not> (hd (TrimLeftSpace e2) \<noteq> CHR '','' \<and> hd (TrimLeftSpace e2) \<noteq> CHR '' '')")
        case True
        have "length (rest5 (parseArgList_loop env (tl (TrimLeftSpace e2)) pa na b))
            \<le> length (tl (TrimLeftSpace e2))"
          using "5.IH"(3) [OF refl p [symmetric] refl nerr ane x2 m [unfolded M_def] refl refl refl refl _ _ _ e3]
            True by blast
        then show ?thesis
          using True e3 by (simp add: loop_eq m Let_def)
      next
        case False
        then show ?thesis
          using e3 by (auto simp: loop_eq m Let_def)
      qed
    qed
  qed
qed

subsection \<open>The equations of the parser without the length tests\<close>

lemma ParseExpr_unfold:
  "ParseExpr env e =
     (case parseExprWithoutPipe env e of (exp', e1, err) \<Rightarrow>
        if err \<noteq> None then (exp', e1, err)
        else (case exp' of None \<Rightarrow> (None, e1, Some Panic) | Some x \<Rightarrow> pipe env x e1))"
proof -
  obtain x a err where p: "parseExprWithoutPipe env e = (x, a, err)"
    by (cases "parseExprWithoutPipe env e")
  have "length a \<le> length e" using parse_rest_length(1) [of env e] p by simp
  then show ?thesis by (subst ParseExpr.simps) (simp add: p split: option.splits)
qed

lemma pipe_unfold:
  "pipe env exp' e0 =
     (let e = skipSpace e0 in
      if e = [] \<or> hd e \<noteq> CHR ''|'' then (Some exp', e, None)
      else
        (case parseExprWithoutPipe env (tl e) of (wr, e1, err) \<Rightarrow>
           if err \<noteq> None then (Some exp', e1, err)
           else
             (case wr of
                None \<Rightarrow> (Some exp', e1, None)
              | Some w \<Rightarrow>
                  (case insertFirstArg env w exp' of
                     Inl err \<Rightarrow> (Some exp', e1, Some err)
                   | Inr w' \<Rightarrow> pipe env w' e1))))"
proof (cases "skipSpace e0 = [] \<or> hd (skipSpace e0) \<noteq> CHR ''|''")
  case True
  then show ?thesis by (subst pipe.simps) (auto simp: Let_def)
next
  case False
  obtain wr a err where p: "parseExprWithoutPipe env (tl (skipSpace e0)) = (wr, a, err)"
    by (cases "parseExprWithoutPipe env (tl (skipSpace e0))")
  have "length a \<le> length (tl (skipSpace e0))"
    using parse_rest_length(1) [of env "tl (skipSpace e0)"] p by simp
  then have "length a < length e0"
    using False skipSpace_length [of e0] by (cases "skipSpace e0") auto
  then show ?thesis
    using False by (subst pipe.simps) (simp add: Let_def p split: option.splits sum.splits)
qed

lemma parseArgList_loop_unfold:
  "parseArgList_loop env e posArgs named argStringBuffer =
     (let argStr = e in
      case ParseExpr env e of (arg, e1, err) \<Rightarrow>
        if err \<noteq> None then ([], [], [], e1, err)
        else if e1 = [] then ([], [], [], [], Some ErrMissingComma)
        else
          (case arg of
             None \<Rightarrow> ([], [], [], [], Some Panic)
           | Some a \<Rightarrow>
               (case
                  (if etype a = EtName \<and> hd e1 = CHR ''='' then
                     (case ParseExpr env (tl e1) of (argCont, eCont, errCont) \<Rightarrow>
                        if errCont \<noteq> None then Inl ([], [], [], eCont, errCont)
                        else if eCont = [] then Inl ([], [], [], [], Some ErrMissingComma)
                        else
                          (case argCont of
                             None \<Rightarrow> Inl ([], [], [], [], Some Panic)
                           | Some ac \<Rightarrow>
                               if etype ac \<noteq> EtConst \<and> etype ac \<noteq> EtName \<and> etype ac \<noteq> EtString
                               then Inl ([], [], [], eCont, Some ErrBadType)
                               else
                                 Inr (eCont, posArgs,
                                      AList.update (target a) (copy_namedArg ac) named,
                                      buf_write argStringBuffer
                                        (take (length argStr - length eCont) argStr))))
                   else
                     Inr (e1, posArgs @ [a], named,
                          buf_write argStringBuffer
                            (if etype a = EtFunc then ToString env a
                             else take (length argStr - length e1) argStr)))
                of
                  Inl ret \<Rightarrow> ret
                | Inr (e2, posArgs, named, argStringBuffer) \<Rightarrow>
                    (let e3 = TrimLeftSpace e2 in
                     if length e3 = 0 then ([], [], [], [], Some ErrUnexpectedCharacter)
                     else if hd e3 = CHR '')'' then (argStringBuffer, posArgs, named, tl e3, None)
                     else if hd e3 \<noteq> CHR '','' \<and> hd e3 \<noteq> CHR '' '' then
                       ([], [], [], [], Some ErrUnexpectedCharacter)
                     else parseArgList_loop env (tl e3) posArgs named argStringBuffer))))"
proof -
  obtain arg a err where p: "ParseExpr env e = (arg, a, err)"
    by (cases "ParseExpr env e")
  obtain argCont eCont errCont where q: "ParseExpr env (tl a) = (argCont, eCont, errCont)"
    by (cases "ParseExpr env (tl a)")
  have a: "length a \<le> length e" using parse_rest_length(2) [of env e] p by simp
  have "length eCont \<le> length (tl a)" using parse_rest_length(2) [of env "tl a"] q by simp
  then have ec: "length eCont \<le> length e" using a by simp
  have tr: "\<And>s. length s \<le> length e \<Longrightarrow> length (TrimLeftSpace s) \<le> length e"
    using TrimLeftSpace_length le_trans by blast
  show ?thesis
    apply (subst parseArgList_loop.simps)
    apply (simp only: Let_def p q prod.case)
    using a ec tr
    apply (auto simp: split: option.splits sum.splits)
    done
qed

subsection \<open>The empty string and blank strings\<close>

lemma skipSpace_blank:
  "e \<noteq> [] \<Longrightarrow> \<forall>c\<in>set e. IsSpace (of_char c) \<Longrightarrow> skipSpace e = [last e]"
  by (induction e rule: skipSpace.induct) auto

lemma IsSpace_byte_value:
  assumes "IsSpace (of_char c)"
  shows "of_char c = (9::nat) \<or> of_char c = (10::nat) \<or> of_char c = (11::nat)
    \<or> of_char c = (12::nat) \<or> of_char c = (13::nat) \<or> of_char c = (32::nat)
    \<or> of_char c = (0x85::nat) \<or> of_char c = (0xA0::nat)"
proof -
  have lt: "(of_char c :: nat) < 256" by simp
  show ?thesis using assms lt unfolding IsSpace_def in_range_def by arith
qed

lemma IsSpace_byte:
  assumes "IsSpace (of_char c)"
  shows "\<not> isDigit c" "c \<noteq> CHR ''-''" "c \<noteq> CHR ''+''" "c \<noteq> CHR 0x27" "c \<noteq> CHR 0x22"
    "\<not> IsNameChar c" "c \<noteq> CHR ''{''" "c \<noteq> CHR ''}''" "c \<noteq> CHR ''[''" "c \<noteq> CHR '']''"
    "c \<noteq> CHR '',''"
proof -
  note v = IsSpace_byte_value [OF assms]
  show "\<not> isDigit c" using v by (auto simp: isDigit_def less_eq_char_def)
  show "\<not> IsNameChar c" using v by (auto simp: IsNameChar_def less_eq_char_def)
  show "c \<noteq> CHR ''-''" using v by auto
  show "c \<noteq> CHR ''+''" using v by auto
  show "c \<noteq> CHR 0x27" using v by auto
  show "c \<noteq> CHR 0x22" using v by auto
  show "c \<noteq> CHR ''{''" using v by auto
  show "c \<noteq> CHR ''}''" using v by auto
  show "c \<noteq> CHR ''[''" using v by auto
  show "c \<noteq> CHR '']''" using v by auto
  show "c \<noteq> CHR '',''" using v by auto
qed

lemma parseName_stops_at_once:
  assumes "IsSpace (of_char c)"
    and "c = CHR '' '' \<or> c = CHR 0x09 \<or> c = CHR 0x0A \<or> \<not> RangeTables env (fst (DecodeRuneInString [c]))"
  shows "parseName env [c] = ([], [c], None)"
proof -
  note b = IsSpace_byte [OF assms(1)]
  have "parseName_loop env [c] 0 0 0 = Inr (0, 0, 0)"
    using assms(2) b
    by (auto simp: unicode_In_def Let_def split: prod.splits simp del: DecodeRuneInString.simps)
  then show ?thesis by (simp add: parseName_def)
qed

lemma parseExprWithoutPipe_blank:
  assumes "e \<noteq> []" and "\<forall>c\<in>set e. IsSpace (of_char c)"
    and "last e = CHR '' '' \<or> last e = CHR 0x09 \<or> last e = CHR 0x0A
      \<or> \<not> RangeTables env (fst (DecodeRuneInString [last e]))"
  shows "parseExprWithoutPipe env e = (None, [last e], Some ErrMissingArgument)"
proof -
  have sk: "skipSpace e = [last e]" using assms(1,2) by (rule skipSpace_blank)
  have sp: "IsSpace (of_char (last e))" using assms(1,2) by simp
  note b = IsSpace_byte [OF sp]
  have pn: "parseName env [last e] = ([], [last e], None)"
    using sp assms(3) by (rule parseName_stops_at_once)
  show ?thesis
    using b by (subst parseExprWithoutPipe.simps) (simp add: sk pn Let_def ToLower_def)
qed


lemma ParseExpr_Nil: "ParseExpr env [] = (None, [], Some ErrMissingExpr)"
  by (simp add: ParseExpr_unfold parseExprWithoutPipe.simps [of env "[]"])


lemma blank3_IsSpace: "c = CHR '' '' \<or> c = CHR 0x09 \<or> c = CHR 0x0A \<Longrightarrow> IsSpace (of_char c)"
  by (elim disjE) (simp_all add: IsSpace_def in_range_def)

lemma ParseExpr_blank:
  assumes "e \<noteq> []" and "\<forall>c\<in>set e. IsSpace (of_char c)"
    and "last e = CHR '' '' \<or> last e = CHR 0x09 \<or> last e = CHR 0x0A
      \<or> \<not> RangeTables env (fst (DecodeRuneInString [last e]))"
  shows "ParseExpr env e = (None, [last e], Some ErrMissingArgument)"
  by (simp add: ParseExpr_unfold parseExprWithoutPipe_blank [OF assms])


text \<open>
  C10. \<^verbatim>\<open>ParseExpr\<close> of the empty string is the missing-expr error. For a string
  that is not empty and holds only white space, the skip of leading white space stops
  at its last byte, the name lexed there is empty, and the result is the
  missing-argument error: for space, tab and newline always, and for the other white
  space bytes when the configured \<^verbatim>\<open>RangeTables\<close> do not make that byte part of a
  name.
\<close>

theorem ParseExpr_empty_and_blank:
  "ParseExpr env [] = (None, [], Some ErrMissingExpr)
   \<and> (e \<noteq> [] \<and> (\<forall>c\<in>set e. c = CHR '' '' \<or> c = CHR 0x09 \<or> c = CHR 0x0A) \<longrightarrow>
        ParseExpr env e = (None, [last e], Some ErrMissingArgument))
   \<and> (e \<noteq> [] \<and> (\<forall>c\<in>set e. IsSpace (of_char c))
        \<and> \<not> RangeTables env (fst (DecodeRuneInString [last e])) \<longrightarrow>
        ParseExpr env e = (None, [last e], Some ErrMissingArgument))"
proof (intro conjI impI)
  show "ParseExpr env [] = (None, [], Some ErrMissingExpr)" by (rule ParseExpr_Nil)
next
  assume a: "e \<noteq> [] \<and> (\<forall>c\<in>set e. c = CHR '' '' \<or> c = CHR 0x09 \<or> c = CHR 0x0A)"
  then have ne: "e \<noteq> []" and b: "\<forall>c\<in>set e. c = CHR '' '' \<or> c = CHR 0x09 \<or> c = CHR 0x0A"
    by blast+
  have sp: "\<forall>c\<in>set e. IsSpace (of_char c)"
    using b blank3_IsSpace by blast
  have "last e \<in> set e" using ne by simp
  then have l: "last e = CHR '' '' \<or> last e = CHR 0x09 \<or> last e = CHR 0x0A
      \<or> \<not> RangeTables env (fst (DecodeRuneInString [last e]))" using b by blast
  show "ParseExpr env e = (None, [last e], Some ErrMissingArgument)"
    using ne sp l by (rule ParseExpr_blank)
next
  assume a: "e \<noteq> [] \<and> (\<forall>c\<in>set e. IsSpace (of_char c))
        \<and> \<not> RangeTables env (fst (DecodeRuneInString [last e]))"
  then have ne: "e \<noteq> []" and sp: "\<forall>c\<in>set e. IsSpace (of_char c)"
    and l: "last e = CHR '' '' \<or> last e = CHR 0x09 \<or> last e = CHR 0x0A
      \<or> \<not> RangeTables env (fst (DecodeRuneInString [last e]))"
    by blast+
  show "ParseExpr env e = (None, [last e], Some ErrMissingArgument)"
    using ne sp l by (rule ParseExpr_blank)
qed


text \<open>Instances: three spaces, and a space before a carriage return.\<close>

theorem ParseExpr_empty_and_blank_witness:
  "\<forall>lib. ParseExpr (go_env lib) [] = (None, [], Some ErrMissingExpr)
     \<and> ParseExpr (go_env lib) ''   '' = (None, '' '', Some ErrMissingArgument)
     \<and> ParseExpr (go_env lib) [CHR '' '', CHR 0x0D] = (None, [CHR 0x0D], Some ErrMissingArgument)"
proof
  fix lib :: "rat env"
  have s1: "\<forall>c\<in>set ''   ''. c = CHR '' '' \<or> c = CHR 0x09 \<or> c = CHR 0x0A" by simp
  have s2: "\<forall>c\<in>set [CHR '' '', CHR 0x0D]. IsSpace (of_char c)"
    by (simp add: IsSpace_def in_range_def)
  have r: "\<not> RangeTables (go_env lib) (fst (DecodeRuneInString [last [CHR '' '', CHR 0x0D]]))"
    by (simp add: go_env_def)
  show "ParseExpr (go_env lib) [] = (None, [], Some ErrMissingExpr)
     \<and> ParseExpr (go_env lib) ''   '' = (None, '' '', Some ErrMissingArgument)
     \<and> ParseExpr (go_env lib) [CHR '' '', CHR 0x0D] = (None, [CHR 0x0D], Some ErrMissingArgument)"
    using ParseExpr_empty_and_blank [of "go_env lib" "''   ''"] s1
      ParseExpr_empty_and_blank [of "go_env lib" "[CHR '' '', CHR 0x0D]"] s2 r
    by simp
qed

subsection \<open>Names\<close>

text \<open>A stretch of plain name characters, and the three characters the white space case
  of \<^verbatim>\<open>parseName\<close> names.\<close>

definition plain :: "string \<Rightarrow> bool" where
  "plain p \<longleftrightarrow> (\<forall>c\<in>set p. IsNameChar c)"




lemma not_IsNameChar [simp]:
  "\<not> IsNameChar (CHR ''{'')" "\<not> IsNameChar (CHR ''}'')" "\<not> IsNameChar (CHR ''['')"
  "\<not> IsNameChar (CHR '']'')" "\<not> IsNameChar (CHR '','')"
  by (simp_all add: IsNameChar_def)



lemma parseName_loop_end [simp]: "parseName_loop env [] i braces brackets = Inr (i, braces, brackets)"
  by simp



declare parseName_loop.simps(2) [simp del]









end
